theory Spec2Isabelle
  imports Complex_Main
begin

section \<open>Strings and numbers of the Python source\<close>

text \<open>
  Python strings are modelled as \<open>string\<close>, a list of 8-bit characters: ASCII text is
  one character per letter, and the warning sign of the router's messages is written as its
  UTF-8 bytes. \<open>str.strip\<close> and \<open>str.lower\<close> are modelled on ASCII, which is all the
  category tables and the sentinel strings of the validator contain. Python floats are
  modelled as \<open>real\<close>: comparisons and arithmetic are the exact ones, without rounding.
\<close>

definition is_space :: "char \<Rightarrow> bool" where
  \<comment> \<open>the ASCII characters for which \<open>str.isspace\<close> holds: tab, line feed, vertical tab,
      form feed, carriage return, the four separators 0x1c..0x1f and the space\<close>
  "is_space c = (of_char c \<in> {9, 10, 11, 12, 13, 28, 29, 30, 31, 32 :: nat})"

definition strip_py :: "string \<Rightarrow> string" where
  \<comment> \<open>\<open>s.strip()\<close>\<close>
  "strip_py s = rev (dropWhile is_space (rev (dropWhile is_space s)))"

definition lower_char :: "char \<Rightarrow> char" where
  "lower_char c =
     (if 65 \<le> (of_char c :: nat) \<and> (of_char c :: nat) \<le> 90
      then char_of ((of_char c :: nat) + 32) else c)"

definition lower_py :: "string \<Rightarrow> string" where
  \<comment> \<open>\<open>s.lower()\<close>\<close>
  "lower_py s = map lower_char s"

definition digit_char :: "nat \<Rightarrow> char" where
  "digit_char d = char_of (48 + d)"

fun str_nat :: "nat \<Rightarrow> string" where
  "str_nat n = (if n < 10 then [digit_char n] else str_nat (n div 10) @ [digit_char (n mod 10)])"

declare str_nat.simps [simp del]

definition round_half_even :: "real \<Rightarrow> int" where
  \<comment> \<open>rounding to the nearest integer, a tie going to the even neighbour\<close>
  "round_half_even x =
     (let f = \<lfloor>x\<rfloor>; d = x - of_int f
      in if d < 1 / 2 then f
         else if 1 / 2 < d then f + 1
         else if even f then f else f + 1)"

definition format_f :: "nat \<Rightarrow> real \<Rightarrow> string" where
  \<comment> \<open>the format specification \<open>.pf\<close>: sign, integer part, and \<open>p\<close> decimals after a point
      (no point when \<open>p = 0\<close>)\<close>
  "format_f p x =
     (let n = nat (round_half_even (\<bar>x\<bar> * 10 ^ p));
          ds = str_nat n;
          padded = replicate (Suc p - length ds) (CHR ''0'') @ ds;
          ip = take (length padded - p) padded;
          fp = drop (length padded - p) padded
      in (if x < 0 then ''-'' else []) @ ip @ (if p = 0 then [] else ''.'' @ fp))"

definition format_pct :: "nat \<Rightarrow> real \<Rightarrow> string" where
  \<comment> \<open>the format specification \<open>.p%\<close>: the value times 100 in \<open>.pf\<close>, then a percent sign\<close>
  "format_pct p x = format_f p (x * 100) @ ''%''"

definition truthy_num :: "real \<Rightarrow> bool" where
  \<comment> \<open>the truth value of a number, as in \<open>if confidence and ...\<close>: \<open>0.0\<close> is false
      (and so is \<open>None\<close>, the other branch of each \<open>case\<close> below)\<close>
  "truthy_num x = (x \<noteq> 0)"

definition warning_sign :: string where
  \<comment> \<open>U+26A0 U+FE0F in UTF-8\<close>
  "warning_sign = [CHR 0xE2, CHR 0x9A, CHR 0xA0, CHR 0xEF, CHR 0xB8, CHR 0x8F]"


section \<open>The category router (group2\_router.py)\<close>

subsection \<open>Care levels\<close>

definition URGENT_CATEGORIES :: "string set" where
  "URGENT_CATEGORIES =
     {''Crisis counseling'', ''Crisis line'', ''Crisis services'', ''IPV support services'',
      ''Trauma counseling''}"

definition MODERATE_CATEGORIES :: "string set" where
  "MODERATE_CATEGORIES =
     {''Mental health'', ''Mental health support'', ''Counseling'', ''Counseling support'',
      ''Psychiatrist'', ''Grief counseling'', ''Group therapy'', ''Emotional regulation group'',
      ''Skills group'', ''LGBTQ+ counseling'', ''Cultural counseling'',
      ''Cultural adjustment counseling'', ''Accessibility counseling'', ''Wellness support'',
      ''Health'', ''Virtual counseling'', ''Directory of free mental health providers'',
      ''Specialist'', ''Parenting support'', ''Case management''}"

definition LOW_PRIORITY_CATEGORIES :: "string set" where
  "LOW_PRIORITY_CATEGORIES = {''Self-care'', ''Self-help''}"

subsection \<open>Branch tables\<close>

definition GROUP3_CATEGORIES :: "string set" where
  "GROUP3_CATEGORIES =
     {''Mental health'', ''Mental health support'', ''Counseling'', ''Counseling support'',
      ''Psychiatrist'',
      ''Crisis counseling'', ''Crisis line'', ''Crisis services'',
      ''Trauma counseling'', ''Grief counseling'',
      ''Group therapy'', ''Emotional regulation group'', ''Skills group'',
      ''LGBTQ+ counseling'', ''Cultural counseling'', ''Cultural adjustment counseling'',
      ''Accessibility counseling'',
      ''Self-care'', ''Self-help'', ''Wellness support'', ''Health'',
      ''Virtual counseling'',
      ''Directory of free mental health providers'', ''Specialist'', ''Parenting support'',
      ''Case management''}"

definition GROUP4_CATEGORIES :: "string set" where
  "GROUP4_CATEGORIES =
     {''Support group'',
      ''Peer support'', ''Peer support organizations'', ''Peer group'', ''Peer mentor'',
      ''LGBTQ+ resource''}"

definition OTHER_CATEGORIES :: "string set" where
  "OTHER_CATEGORIES =
     {''Academic advising'', ''Academic coaching'', ''Advising'', ''Advisor'',
      ''Career counseling'', ''Career services'',
      ''Campus health'', ''Campus wellness'', ''Campus case worker'', ''Student services'',
      ''Disability services'', ''Disability support office'',
      ''Financial aid'',
      ''Cultural center'', ''Multicultural center'',
      ''International student office'',
      ''Ethics office'', ''STEM mentoring'', ''Mentoring'', ''Online safety resources'',
      ''Mediation'',
      ''IPV support services'', ''Military student support'', ''Case manager''}"

subsection \<open>Routing decisions\<close>

text \<open>
  The input dictionary of Group 2: each key may be missing. The routing decision is the
  dictionary the router builds: the five keys every decision has, and the keys later layers
  add, \<open>None\<close> while the key is missing. \<open>care_level\<close> is \<open>Some None\<close> when the key holds
  Python's \<open>None\<close>.
\<close>

record group2_output =
  g2_category :: "string option"
  g2_confidence :: "real option"
  g2_user_input :: "string option"

record decision =
  branch :: string
  message :: string
  category :: string
  confidence :: "real option"
  action :: string
  original_input :: "string option"
  warning :: "string option"
  care_level :: "string option option"
  confidence_warning :: "string option"
  requires_manual_review :: "bool option"
  requires_confirmation :: "bool option"

definition base_decision :: "string \<Rightarrow> string \<Rightarrow> string \<Rightarrow> real option \<Rightarrow> string \<Rightarrow> decision" where
  \<comment> \<open>a dictionary literal with the five keys \<open>branch\<close>, \<open>message\<close>, \<open>category\<close>,
      \<open>confidence\<close>, \<open>action\<close>\<close>
  "base_decision b m c conf a =
     \<lparr>branch = b, message = m, category = c, confidence = conf, action = a,
      original_input = None, warning = None, care_level = None, confidence_warning = None,
      requires_manual_review = None, requires_confirmation = None\<rparr>"

definition route_category :: "string \<Rightarrow> real option \<Rightarrow> decision" where
  "route_category category0 conf =
     (let c = strip_py category0 in
      if c \<in> GROUP3_CATEGORIES then
        base_decision ''group3''
          (''Based on your category ['' @ c @
           ''], this is within Affordable Care services. Proceeding to Group 3 process.'')
          c conf ''proceed_to_group3''
      else if c \<in> GROUP4_CATEGORIES then
        base_decision ''group4''
          (''Based on your category ['' @ c @
           ''], this is within Local Events services. Transferring to Group 4 process.'')
          c conf ''transfer_to_group4''
      else if c \<in> OTHER_CATEGORIES then
        base_decision ''other''
          (''Based on your category ['' @ c @
           ''], this is currently out of scope. Please return to the previous step and try again.'')
          c conf ''return_to_previous_step''
      else
        base_decision ''unknown''
          (''Sorry, unable to recognize category ['' @ c @ '']. Please rephrase your needs.'')
          c conf ''ask_for_clarification'')"

definition get_category :: "group2_output \<Rightarrow> string" where
  \<comment> \<open>\<open>group2_result.get('category', '')\<close>\<close>
  "get_category g = (case g2_category g of None \<Rightarrow> [] | Some c \<Rightarrow> c)"

definition low_confidence_warning :: "real \<Rightarrow> string" where
  "low_confidence_warning c =
     ''WARNING: Classification confidence is low ('' @ format_pct 2 c @
     ''), result may be inaccurate''"

definition process_group2_output :: "group2_output \<Rightarrow> decision" where
  "process_group2_output g =
     (let conf = g2_confidence g;
          d0 = route_category (get_category g) conf;
          d1 = (case g2_user_input g of None \<Rightarrow> d0 | Some u \<Rightarrow> d0\<lparr>original_input := Some u\<rparr>)
      in case conf of
           None \<Rightarrow> d1
         | Some x \<Rightarrow>
             if truthy_num x \<and> x < 0.5
             then d1\<lparr>warning := Some (low_confidence_warning x)\<rparr>
             else d1)"

definition critical_warning :: "real \<Rightarrow> string" where
  "critical_warning c =
     warning_sign @ '' CRITICAL: Very low confidence ('' @ format_pct 2 c @
     ''). Manual review strongly recommended before proceeding.''"

definition critical_suffix :: "real \<Rightarrow> string" where
  "critical_suffix c =
     [CHR 0x0A] @ warning_sign @ warning_sign @ warning_sign @
     '' CRITICAL WARNING: Confidence only '' @ format_pct 2 c @ ''. Consider manual review.''"

definition low_suffix :: "real \<Rightarrow> string" where
  "low_suffix c =
     '' [Low confidence ('' @ format_pct 2 c @ '') - please confirm before proceeding]''"

definition care_level_of :: "string \<Rightarrow> string option" where
  \<comment> \<open>the \<open>if\<close>/\<open>elif\<close> chain that sets \<open>care_level\<close>, on the stripped category\<close>
  "care_level_of c =
     (if c \<in> URGENT_CATEGORIES then Some ''URGENT''
      else if c \<in> MODERATE_CATEGORIES then Some ''MODERATE''
      else if c \<in> LOW_PRIORITY_CATEGORIES then Some ''LOW''
      else None)"

definition stop_decision :: "string \<Rightarrow> real option \<Rightarrow> string option \<Rightarrow> decision" where
  "stop_decision c conf cl =
     (base_decision ''no_care_needed''
        (''Based on your input, you'' @ [CHR 0x27] @ ''re doing well! The assessment suggests '' @
         lower_py c @
         '', which you can explore on your own. No immediate professional support needed.'')
        c conf ''stop_execution'')\<lparr>care_level := Some cl\<rparr>"

definition stops :: "string option \<Rightarrow> real option \<Rightarrow> bool" where
  \<comment> \<open>\<open>care_level == 'LOW' and confidence and confidence < 0.50\<close>\<close>
  "stops cl conf =
     (cl = Some ''LOW'' \<and> (case conf of None \<Rightarrow> False | Some x \<Rightarrow> truthy_num x \<and> x < 0.50))"

definition confidence_overlay :: "string option \<Rightarrow> real option \<Rightarrow> decision \<Rightarrow> decision" where
  \<comment> \<open>the \<open>if\<close>/\<open>elif\<close> that adds the confidence-based warnings to the decision\<close>
  "confidence_overlay cl conf d =
     (case conf of
        None \<Rightarrow> d
      | Some x \<Rightarrow>
          if truthy_num x \<and> x < 0.30 then
            (let d1 = d\<lparr>confidence_warning := Some ''CRITICAL'',
                          warning := Some (critical_warning x),
                          requires_manual_review := Some True\<rparr>
             in if cl \<noteq> Some ''URGENT''
                then d1\<lparr>message := message d1 @ critical_suffix x\<rparr>
                else d1)
          else if truthy_num x \<and> x < 0.50 then
            d\<lparr>confidence_warning := Some ''LOW'',
              requires_confirmation := Some True,
              message := message d @ low_suffix x\<rparr>
          else d)"

definition handle_group2_input :: "group2_output \<Rightarrow> bool \<times> decision" where
  "handle_group2_input g =
     (let conf = g2_confidence g;
          c = strip_py (get_category g);
          cl = care_level_of c
      in if stops cl conf
         then (False, stop_decision c conf cl)
         else
           (let d = (process_group2_output g)\<lparr>care_level := Some cl\<rparr>;
                is_ours = (branch d = ''group3'')
            in (is_ours, confidence_overlay cl conf d)))"


section \<open>The reliability validator (anti\_hallucination.py)\<close>

text \<open>
  A facility is a dictionary; each key the validator reads may be missing. The contact
  fields hold strings (for which \<open>str(v)\<close> is \<open>v\<close>), the scores and similarities numbers.
  For a contact field \<open>None\<close> stands for a missing key as well as for the value \<open>None\<close>:
  \<open>facility.get(field)\<close> is false for both.
\<close>

record validation =
  confidence_level :: string
  warnings :: "string list"
  data_source :: string
  reliability_score :: real

record facility =
  name :: "string option"
  city :: "string option"
  state :: "string option"
  address :: "string option"
  phone :: "string option"
  zip_field :: "string option"
  score :: "real option"
  affordability_score :: "real option"
  crisis_care_score :: "real option"
  accessibility_score :: "real option"
  specialization_score :: "real option"
  community_integration_score :: "real option"
  affordability_similarity :: "real option"
  crisis_care_similarity :: "real option"
  accessibility_similarity :: "real option"
  specialization_similarity :: "real option"
  community_integration_similarity :: "real option"
  source :: "string option"
  validation :: "validation option"

definition CONFIDENCE_THRESHOLDS_high :: real where
  "CONFIDENCE_THRESHOLDS_high = 0.70"

definition CONFIDENCE_THRESHOLDS_medium :: real where
  "CONFIDENCE_THRESHOLDS_medium = 0.50"

definition CONFIDENCE_THRESHOLDS_low :: real where
  "CONFIDENCE_THRESHOLDS_low = 0.30"

definition SCORE_THRESHOLDS_suspiciously_high :: real where
  "SCORE_THRESHOLDS_suspiciously_high = 9.5"

definition SCORE_THRESHOLDS_suspiciously_low :: real where
  "SCORE_THRESHOLDS_suspiciously_low = 2.0"

definition np_mean :: "real list \<Rightarrow> real" where
  "np_mean xs = sum_list xs / real (length xs)"

definition np_std :: "real list \<Rightarrow> real" where
  \<comment> \<open>the population standard deviation, numpy's default\<close>
  "np_std xs = sqrt (np_mean (map (\<lambda>x. (x - np_mean xs)\<^sup>2) xs))"

definition get_score :: "facility \<Rightarrow> real" where
  \<comment> \<open>\<open>facility.get('score', 0)\<close>\<close>
  "get_score f = (case score f of None \<Rightarrow> 0 | Some s \<Rightarrow> s)"

definition similarities :: "facility \<Rightarrow> real list" where
  \<comment> \<open>the values of the similarity keys that are in the facility, in the order of the loop\<close>
  "similarities f =
     List.map_filter (\<lambda>key. key f)
       [affordability_similarity, crisis_care_similarity, accessibility_similarity,
        specialization_similarity, community_integration_similarity]"

definition check_score_confidence :: "facility \<Rightarrow> string" where
  "check_score_confidence f =
     (let sims = similarities f in
      if sims = [] then
        (let s = get_score f in
         if s \<ge> 8.5 then ''high''
         else if s \<ge> 7.0 then ''medium''
         else ''low'')
      else
        (let avg_similarity = np_mean sims in
         if avg_similarity \<ge> CONFIDENCE_THRESHOLDS_high then ''high''
         else if avg_similarity \<ge> CONFIDENCE_THRESHOLDS_medium then ''medium''
         else ''low''))"

definition required_fields :: "(facility \<Rightarrow> string option) list" where
  "required_fields = [name, city, state]"

definition optional_fields :: "(facility \<Rightarrow> string option) list" where
  "optional_fields = [address, phone, zip_field]"

definition required_complete :: "string option \<Rightarrow> bool" where
  \<comment> \<open>\<open>facility.get(field) and str(facility[field]).strip() and
      str(facility[field]).lower() != 'nan'\<close>\<close>
  "required_complete v =
     (case v of
        None \<Rightarrow> False
      | Some s \<Rightarrow> s \<noteq> [] \<and> strip_py s \<noteq> [] \<and> lower_py s \<noteq> ''nan'')"

definition optional_complete :: "string option \<Rightarrow> bool" where
  \<comment> \<open>\<open>value and str(value).strip() and str(value).lower() not in [...]\<close>, where
      \<open>value = facility.get(field, '')\<close>\<close>
  "optional_complete v =
     (case v of
        None \<Rightarrow> False
      | Some s \<Rightarrow>
          s \<noteq> [] \<and> strip_py s \<noteq> [] \<and>
          lower_py s \<notin> set [''nan'', ''address not available'', ''phone not available'', []])"

definition check_data_completeness :: "facility \<Rightarrow> real" where
  "check_data_completeness f =
     (let complete_required = length (filter (\<lambda>field. required_complete (field f)) required_fields);
          complete_optional = length (filter (\<lambda>field. optional_complete (field f)) optional_fields)
      in (real complete_required / real (length required_fields)) * 0.8 +
         (real complete_optional / real (length optional_fields)) * 0.2)"

definition dimension_scores :: "facility \<Rightarrow> real list" where
  "dimension_scores f =
     List.map_filter (\<lambda>key. key f)
       [affordability_score, crisis_care_score, accessibility_score,
        specialization_score, community_integration_score]"

definition high_score_warning :: "real \<Rightarrow> string" where
  "high_score_warning s =
     ''Abnormally high score ('' @ format_f 1 s @ ''/10), manual verification recommended''"

definition low_score_warning :: "real \<Rightarrow> string" where
  "low_score_warning s =
     ''Abnormally low score ('' @ format_f 1 s @ ''/10), may not match criteria''"

definition variance_warning :: "real \<Rightarrow> string" where
  "variance_warning sd =
     ''High score variance (std dev='' @ format_f 1 sd @ ''), may be unreliable''"

definition check_score_anomalies :: "facility \<Rightarrow> string list" where
  "check_score_anomalies f =
     (let overall_score = get_score f;
          w1 = (if overall_score \<ge> SCORE_THRESHOLDS_suspiciously_high
                then [high_score_warning overall_score] else []);
          w2 = (if overall_score \<le> SCORE_THRESHOLDS_suspiciously_low
                then [low_score_warning overall_score] else []);
          ds = dimension_scores f;
          w3 = (if ds \<noteq> [] \<and> np_std ds > 2.0 then [variance_warning (np_std ds)] else [])
      in w1 @ w2 @ w3)"

definition confidence_weights :: "(string \<times> real) list" where
  "confidence_weights = [(''high'', 1.0), (''medium'', 0.7), (''low'', 0.4), (''unknown'', 0.3)]"

definition calculate_reliability :: "facility \<Rightarrow> string \<Rightarrow> real \<Rightarrow> real" where
  "calculate_reliability f conf completeness =
     (let confidence_score =
            (case map_of confidence_weights conf of None \<Rightarrow> 0.3 | Some w \<Rightarrow> w);
          reliability = (confidence_score * 0.6 + completeness * 0.3 + 0.1) * 100
      in min 100 (max 0 reliability))"

definition incomplete_warning :: "real \<Rightarrow> string" where
  "incomplete_warning completeness =
     ''Incomplete data ('' @ format_f 0 (completeness * 100) @ ''%)''"

definition validation_of :: "facility \<Rightarrow> validation" where
  \<comment> \<open>the \<open>validation\<close> dictionary that \<open>validate_facility\<close> builds\<close>
  "validation_of f =
     (let conf = check_score_confidence f;
          completeness = check_data_completeness f;
          ws = (if completeness < 0.5 then [incomplete_warning completeness] else []) @
               check_score_anomalies f
      in \<lparr>confidence_level = conf,
          warnings = ws,
          data_source = (case source f of None \<Rightarrow> ''unknown'' | Some s \<Rightarrow> s),
          reliability_score = calculate_reliability f conf completeness\<rparr>)"

definition validate_facility :: "facility \<Rightarrow> facility" where
  "validate_facility f = f\<lparr>validation := Some (validation_of f)\<rparr>"

subsection \<open>The specification's wording, for comparison\<close>

definition spec_confidence_weight :: "string \<Rightarrow> real option" where
  \<comment> \<open>\<open>confidence_weight\<close> = high: 1.0, medium: 0.7, low: 0.4, unknown: 0.3\<close>
  "spec_confidence_weight t =
     (if t = ''high'' then Some 1.0
      else if t = ''medium'' then Some 0.7
      else if t = ''low'' then Some 0.4
      else if t = ''unknown'' then Some 0.3
      else None)"

definition spec_reliability :: "real \<Rightarrow> real \<Rightarrow> real" where
  \<comment> \<open>\<open>100 \<times> (confidence_weight \<times> 0.6 + completeness \<times> 0.3 + 0.1)\<close>, clamped to [0, 100]\<close>
  "spec_reliability w completeness =
     (let r = 100 * (w * 0.6 + completeness * 0.3 + 0.1)
      in if r < 0 then 0 else if r > 100 then 100 else r)"

definition tier_rank :: "string \<Rightarrow> nat option" where
  \<comment> \<open>the rank order unknown < low < medium < high\<close>
  "tier_rank t =
     (if t = ''unknown'' then Some 0
      else if t = ''low'' then Some 1
      else if t = ''medium'' then Some 2
      else if t = ''high'' then Some 3
      else None)"

definition is_upper :: "char \<Rightarrow> bool" where
  \<comment> \<open>an ASCII capital letter\<close>
  "is_upper c = (65 \<le> (of_char c :: nat) \<and> (of_char c :: nat) \<le> 90)"

definition same_letter :: "char \<Rightarrow> char \<Rightarrow> bool" where
  \<comment> \<open>the same character, or a capital letter and its small letter\<close>
  "same_letter a b =
     (a = b \<or> (is_upper a \<and> (of_char b :: nat) = of_char a + 32)
            \<or> (is_upper b \<and> (of_char a :: nat) = of_char b + 32))"

definition ci_eq :: "string \<Rightarrow> string \<Rightarrow> bool" where
  \<comment> \<open>equal as case-insensitive strings\<close>
  "ci_eq s t = list_all2 same_letter s t"

definition spec_blank :: "string \<Rightarrow> bool" where
  \<comment> \<open>empty after stripping: nothing but white space\<close>
  "spec_blank s = list_all is_space s"

definition spec_required_present :: "string option \<Rightarrow> bool" where
  \<comment> \<open>non-empty after stripping, and not the case-insensitive string \<open>nan\<close>\<close>
  "spec_required_present v =
     (case v of None \<Rightarrow> False | Some s \<Rightarrow> \<not> spec_blank s \<and> \<not> ci_eq s ''nan'')"

definition spec_optional_present :: "string option \<Rightarrow> bool" where
  \<comment> \<open>as a required field, and neither of the two sentinels, case-insensitively\<close>
  "spec_optional_present v =
     (case v of
        None \<Rightarrow> False
      | Some s \<Rightarrow>
          \<not> spec_blank s \<and> \<not> ci_eq s ''nan'' \<and>
          \<not> ci_eq s ''address not available'' \<and> \<not> ci_eq s ''phone not available'')"


definition count_present :: "('a \<Rightarrow> bool) \<Rightarrow> 'a list \<Rightarrow> real" where
  "count_present P xs = real (length (filter P xs))"



subsection \<open>Example inputs\<close>

definition empty_facility :: facility where
  \<comment> \<open>the dictionary \<open>{}\<close>\<close>
  "empty_facility =
     \<lparr>name = None, city = None, state = None, address = None, phone = None, zip_field = None,
      score = None, affordability_score = None, crisis_care_score = None,
      accessibility_score = None, specialization_score = None,
      community_integration_score = None, affordability_similarity = None,
      crisis_care_similarity = None, accessibility_similarity = None,
      specialization_similarity = None, community_integration_similarity = None,
      source = None, validation = None\<rparr>"

definition named_facility :: facility where
  \<comment> \<open>\<open>{'name': 'Clinic', 'city': 'Hartford', 'state': 'CT'}\<close>\<close>
  "named_facility =
     empty_facility\<lparr>name := Some ''Clinic'', city := Some ''Hartford'', state := Some ''CT''\<rparr>"




section \<open>Keys that hold \<open>None\<close>, and the exceptions of the source\<close>

text \<open>
  The definitions above take every value the code computes with to be of its type. The code
  has no exception handler, and a key that holds \<open>None\<close> where the code calls a string method
  or compares numbers raises: \<open>None.strip()\<close> is an AttributeError, and \<open>None >= 8.5\<close>,
  \<open>np.mean\<close> and \<open>np.std\<close> of a list with \<open>None\<close> are TypeErrors. The definitions below
  add the value \<open>None\<close> for these keys (the category, the score, the similarities and the
  dimension scores) and return the exception as a value. For the other keys the \<open>None\<close> of
  the records above already stands for both a missing key and the value \<open>None\<close>: the code
  only tests their truth value.
\<close>

datatype 'a field = Missing | PyNone | Val 'a








definition present_values :: "'a field list \<Rightarrow> 'a field list" where
  \<comment> \<open>the values of the keys that are in the dictionary\<close>
  "present_values xs = filter (\<lambda>x. x \<noteq> Missing) xs"










section \<open>Properties of the router\<close>

subsection \<open>Auxiliary facts\<close>

lemma urgency_disjoint:
  "URGENT_CATEGORIES \<inter> MODERATE_CATEGORIES = {}"
  "URGENT_CATEGORIES \<inter> LOW_PRIORITY_CATEGORIES = {}"
  "MODERATE_CATEGORIES \<inter> LOW_PRIORITY_CATEGORIES = {}"
  by (simp_all add: URGENT_CATEGORIES_def MODERATE_CATEGORIES_def LOW_PRIORITY_CATEGORIES_def)

lemma strip_py_URGENT: "c \<in> URGENT_CATEGORIES \<Longrightarrow> strip_py c = c"
  by (auto simp: URGENT_CATEGORIES_def strip_py_def is_space_def)

lemma care_level_of_URGENT: "c \<in> URGENT_CATEGORIES \<Longrightarrow> care_level_of c = Some ''URGENT''"
  by (simp add: care_level_of_def)

lemma care_level_of_LOW: "c \<in> LOW_PRIORITY_CATEGORIES \<Longrightarrow> care_level_of c = Some ''LOW''"
  using urgency_disjoint by (auto simp: care_level_of_def)


lemma overlay_keeps [simp]:
  "branch (confidence_overlay cl conf d) = branch d"
  "action (confidence_overlay cl conf d) = action d"
  "care_level (confidence_overlay cl conf d) = care_level d"
  by (simp_all add: confidence_overlay_def Let_def split: option.splits)

lemma process_keeps [simp]:
  "branch (process_group2_output g) = branch (route_category (get_category g) (g2_confidence g))"
  "action (process_group2_output g) = action (route_category (get_category g) (g2_confidence g))"
  "message (process_group2_output g) = message (route_category (get_category g) (g2_confidence g))"
  by (simp_all add: process_group2_output_def Let_def split: option.splits)

lemma route_category_branch:
  "branch (route_category c conf) =
     (if strip_py c \<in> GROUP3_CATEGORIES then ''group3''
      else if strip_py c \<in> GROUP4_CATEGORIES then ''group4''
      else if strip_py c \<in> OTHER_CATEGORIES then ''other'' else ''unknown'')"
  by (simp add: route_category_def base_decision_def Let_def)

lemma route_category_action:
  "action (route_category c conf) =
     (if strip_py c \<in> GROUP3_CATEGORIES then ''proceed_to_group3''
      else if strip_py c \<in> GROUP4_CATEGORIES then ''transfer_to_group4''
      else if strip_py c \<in> OTHER_CATEGORIES then ''return_to_previous_step''
      else ''ask_for_clarification'')"
  by (simp add: route_category_def base_decision_def Let_def)

text \<open>When the stop rule does not fire, the result is the routed decision with its overlay.\<close>

lemma handle_not_stopped:
  "\<not> stops (care_level_of (strip_py (get_category g))) (g2_confidence g) \<Longrightarrow>
   handle_group2_input g =
     (branch (route_category (get_category g) (g2_confidence g)) = ''group3'',
      confidence_overlay (care_level_of (strip_py (get_category g))) (g2_confidence g)
        ((process_group2_output g)\<lparr>care_level := Some (care_level_of (strip_py (get_category g)))\<rparr>))"
  by (simp add: handle_group2_input_def Let_def)

text \<open>
  The stop rule, for the confidences the truth test lets through: a LOW category with a
  confidence that is present, not zero and below 0.50 gets the terminal decision.
\<close>

lemma stop_rule_fires:
  assumes "strip_py (get_category g) \<in> LOW_PRIORITY_CATEGORIES"
    and "g2_confidence g = Some x" and "x \<noteq> 0" and "x < 0.50"
  shows "handle_group2_input g =
     (False, stop_decision (strip_py (get_category g)) (Some x) (Some ''LOW''))"
  using assms
  by (simp add: handle_group2_input_def Let_def stops_def truthy_num_def care_level_of_LOW)

lemma process_warning_nonzero:
  "g2_confidence g = Some x \<Longrightarrow> x \<noteq> 0 \<Longrightarrow> x < 0.5 \<Longrightarrow>
   warning (process_group2_output g) = Some (low_confidence_warning x)"
  by (simp add: process_group2_output_def Let_def truthy_num_def split: option.splits)

subsection \<open>The stop rule at confidence zero\<close>

text \<open>
  Claim C1: for every category of the LOW urgency set and every confidence that is present
  and below 0.50, zero included, \<open>handle_group2_input\<close> returns \<open>is_ours = False\<close> with the
  terminal decision (branch \<open>no_care_needed\<close>, action \<open>stop_execution\<close>, care level LOW).
  The code tests \<open>confidence and confidence < 0.50\<close>, and \<open>0.0\<close> is false in Python: at
  category \<open>Self-care\<close> and confidence \<open>0.0\<close> the stop rule does not fire, and the request
  is routed to Group 3 with no warning at all. The theorem evaluates the code there.
\<close>

theorem C1_zero_confidence_not_stopped:
  "handle_group2_input
     \<lparr>g2_category = Some ''Self-care'', g2_confidence = Some 0, g2_user_input = None\<rparr> =
   (True,
    (base_decision ''group3''
       ''Based on your category [Self-care], this is within Affordable Care services. Proceeding to Group 3 process.''
       ''Self-care'' (Some 0) ''proceed_to_group3'')\<lparr>care_level := Some (Some ''LOW'')\<rparr>)"
  by code_simp

subsection \<open>The critical overlay\<close>




subsection \<open>Urgent categories are never stopped\<close>

text \<open>
  Claim C3: for every category of the URGENT urgency set and every confidence, present or
  absent, \<open>handle_group2_input\<close> never returns the stop-rule outcome: the branch is not
  \<open>no_care_needed\<close> and the action is not \<open>stop_execution\<close>. The care level is URGENT, and
  normal routing proceeds: branch and action are those of \<open>route_category\<close>, and \<open>is_ours\<close>
  says whether that branch is \<open>group3\<close>.
\<close>

theorem C3_urgent_never_stopped:
  assumes "g2_category g = Some c" and "c \<in> URGENT_CATEGORIES"
  shows "branch (snd (handle_group2_input g)) \<noteq> ''no_care_needed'' \<and>
         action (snd (handle_group2_input g)) \<noteq> ''stop_execution'' \<and>
         care_level (snd (handle_group2_input g)) = Some (Some ''URGENT'') \<and>
         branch (snd (handle_group2_input g)) = branch (route_category c (g2_confidence g)) \<and>
         action (snd (handle_group2_input g)) = action (route_category c (g2_confidence g)) \<and>
         fst (handle_group2_input g) = (branch (route_category c (g2_confidence g)) = ''group3'')"
proof -
  have gc: "get_category g = c" using assms(1) by (simp add: get_category_def)
  have cl: "care_level_of (strip_py (get_category g)) = Some ''URGENT''"
    using assms(2) by (simp add: gc strip_py_URGENT care_level_of_URGENT)
  have ns: "\<not> stops (care_level_of (strip_py (get_category g))) (g2_confidence g)"
    by (simp add: cl stops_def)
  show ?thesis
    unfolding handle_not_stopped [OF ns]
    using cl [unfolded gc]
    by (simp add: gc route_category_branch route_category_action)
qed

theorem C3_urgent_never_stopped_witness:
  "branch (snd (handle_group2_input
     \<lparr>g2_category = Some ''Crisis counseling'', g2_confidence = Some (3 / 20), g2_user_input = None\<rparr>))
     \<noteq> ''no_care_needed'' \<and>
   fst (handle_group2_input
     \<lparr>g2_category = Some ''Crisis counseling'', g2_confidence = Some (3 / 20), g2_user_input = None\<rparr>)"
proof -
  let ?g = "\<lparr>g2_category = Some ''Crisis counseling'', g2_confidence = Some (3 / 20 :: real),
             g2_user_input = None\<rparr>"
  have h1: "g2_category ?g = Some ''Crisis counseling''" by simp
  have h2: "''Crisis counseling'' \<in> URGENT_CATEGORIES" by (simp add: URGENT_CATEGORIES_def)
  have b: "branch (route_category ''Crisis counseling'' (Some (3 / 20))) = ''group3''" by code_simp
  from C3_urgent_never_stopped [OF h1 h2] b show ?thesis by simp
qed

subsection \<open>The lookup tables\<close>

text \<open>
  Claim C4: the three branch sets are pairwise disjoint, and so are the three urgency sets:
  no category string is in two branch sets or in two urgency tiers.
\<close>

theorem C4_tables_disjoint:
  "GROUP3_CATEGORIES \<inter> GROUP4_CATEGORIES = {} \<and>
   GROUP3_CATEGORIES \<inter> OTHER_CATEGORIES = {} \<and>
   GROUP4_CATEGORIES \<inter> OTHER_CATEGORIES = {} \<and>
   URGENT_CATEGORIES \<inter> MODERATE_CATEGORIES = {} \<and>
   URGENT_CATEGORIES \<inter> LOW_PRIORITY_CATEGORIES = {} \<and>
   MODERATE_CATEGORIES \<inter> LOW_PRIORITY_CATEGORIES = {}"
  by (simp add: GROUP3_CATEGORIES_def GROUP4_CATEGORIES_def OTHER_CATEGORIES_def
      URGENT_CATEGORIES_def MODERATE_CATEGORIES_def LOW_PRIORITY_CATEGORIES_def)

subsection \<open>The low-confidence warning of the route layer\<close>

text \<open>
  Claim C8: at the route layer every present confidence below 0.5 attaches a low-confidence
  warning, and the warning does not change the branch. The branch is indeed that of
  \<open>route_category\<close> (lemma \<open>process_keeps\<close>), and the warning is attached for every
  confidence below 0.5 other than zero (lemma \<open>process_warning_nonzero\<close>); but the code tests
  \<open>confidence and confidence < 0.5\<close>, so the confidence \<open>0.0\<close> gets no warning. The theorem
  evaluates the code at category \<open>Mental health\<close> and confidence \<open>0.0\<close>.
\<close>

theorem C8_zero_confidence_no_warning:
  "warning (process_group2_output
     \<lparr>g2_category = Some ''Mental health'', g2_confidence = Some 0, g2_user_input = None\<rparr>) = None \<and>
   branch (process_group2_output
     \<lparr>g2_category = Some ''Mental health'', g2_confidence = Some 0, g2_user_input = None\<rparr>) = ''group3''"
  by code_simp

section \<open>Properties of the validator\<close>

subsection \<open>Auxiliary facts\<close>

lemma confidence_score_cases:
  "(case map_of confidence_weights t of None \<Rightarrow> 0.3 | Some w \<Rightarrow> w) =
     (if t = ''high'' then 1.0 else if t = ''medium'' then 0.7 else if t = ''low'' then 0.4 else (0.3::real))"
  by (simp add: confidence_weights_def)

lemma calculate_reliability_eq:
  "calculate_reliability f t c =
     min 100 (max 0 (((if t = ''high'' then 1.0 else if t = ''medium'' then 0.7
                       else if t = ''low'' then 0.4 else 0.3) * 0.6 + c * 0.3 + 0.1) * 100))"
  unfolding calculate_reliability_def Let_def confidence_score_cases by (rule refl)

lemma calculate_reliability_spec:
  "spec_confidence_weight t = Some w \<Longrightarrow> calculate_reliability f t c = spec_reliability w c"
  by (auto simp: calculate_reliability_eq spec_confidence_weight_def spec_reliability_def Let_def
      split: if_splits)

lemma calculate_reliability_pos:
  "0 \<le> c \<Longrightarrow> 0 < calculate_reliability f t c"
  by (simp add: calculate_reliability_eq)

lemma calculate_reliability_range:
  "0 \<le> calculate_reliability f t c \<and> calculate_reliability f t c \<le> 100"
  by (simp add: calculate_reliability_eq)

lemma calculate_reliability_mono_completeness:
  "c1 \<le> c2 \<Longrightarrow> calculate_reliability f t c1 \<le> calculate_reliability f t c2"
  by (simp add: calculate_reliability_eq min_def max_def)

lemma calculate_reliability_mono_tier:
  "tier_rank t1 = Some r1 \<Longrightarrow> tier_rank t2 = Some r2 \<Longrightarrow> r1 \<le> r2 \<Longrightarrow>
   calculate_reliability f t1 c \<le> calculate_reliability f t2 c"
  by (auto simp: calculate_reliability_eq tier_rank_def min_def max_def split: if_splits)

text \<open>
  The presence tests of the code, which strip and lower the value, are those of the
  specification's wording: a value is empty after stripping when it holds nothing but white
  space, and its lowered form is one of the literals when it equals the literal up to the
  case of its letters.
\<close>

lemma strip_py_Nil [simp]: "strip_py [] = []"
  by (simp add: strip_py_def)

lemma dropWhile_all_iff: "(\<forall>x\<in>set (dropWhile P xs). P x) \<longleftrightarrow> (\<forall>x\<in>set xs. P x)"
proof
  assume a: "\<forall>x\<in>set (dropWhile P xs). P x"
  have "dropWhile P xs = []"
  proof (rule ccontr)
    assume n: "dropWhile P xs \<noteq> []"
    then have "\<not> P (hd (dropWhile P xs))" by (rule hd_dropWhile)
    moreover have "hd (dropWhile P xs) \<in> set (dropWhile P xs)" using n by simp
    ultimately show False using a by blast
  qed
  then show "\<forall>x\<in>set xs. P x" by (simp add: dropWhile_eq_Nil_conv)
next
  assume "\<forall>x\<in>set xs. P x"
  then show "\<forall>x\<in>set (dropWhile P xs). P x" by (meson set_dropWhileD)
qed

lemma strip_py_blank: "strip_py s = [] \<longleftrightarrow> spec_blank s"
  by (simp add: strip_py_def spec_blank_def dropWhile_eq_Nil_conv dropWhile_all_iff list_all_iff)

lemma lower_char_same_letter: "\<not> is_upper b \<Longrightarrow> (lower_char a = b) = same_letter a b"
proof -
  assume nb: "\<not> is_upper b"
  show ?thesis
  proof (cases "is_upper a")
    case True
    then have r: "(of_char a :: nat) + 32 < 256" by (simp add: is_upper_def)
    have "(char_of ((of_char a :: nat) + 32) = b) = ((of_char b :: nat) = of_char a + 32)"
    proof
      assume "char_of ((of_char a :: nat) + 32) = b"
      then have "(of_char b :: nat) = of_char (char_of ((of_char a :: nat) + 32) :: char)" by simp
      also have "\<dots> = (of_char a + 32) mod 256" by (simp only: of_char_of)
      also have "\<dots> = of_char a + 32" using r by simp
      finally show "(of_char b :: nat) = of_char a + 32" .
    next
      assume "(of_char b :: nat) = of_char a + 32"
      then have "char_of ((of_char a :: nat) + 32) = (char_of (of_char b :: nat) :: char)" by simp
      then show "char_of ((of_char a :: nat) + 32) = b" by (simp only: char_of_char)
    qed
    moreover have "a \<noteq> b" using True nb by auto
    ultimately show ?thesis using True nb
      by (auto simp: lower_char_def same_letter_def is_upper_def)
  next
    case False
    then show ?thesis using nb
      by (auto simp: lower_char_def same_letter_def is_upper_def)
  qed
qed

lemma lower_py_ci_eq: "list_all (\<lambda>c. \<not> is_upper c) t \<Longrightarrow> (lower_py s = t) = ci_eq s t"
proof (induction s arbitrary: t)
  case Nil
  then show ?case by (cases t) (simp_all add: lower_py_def ci_eq_def)
next
  case (Cons a s)
  show ?case
  proof (cases t)
    case Nil
    then show ?thesis by (simp add: lower_py_def ci_eq_def)
  next
    case (Cons b t')
    with Cons.prems have nb: "\<not> is_upper b" and t': "list_all (\<lambda>c. \<not> is_upper c) t'" by simp_all
    from Cons.IH [OF t'] lower_char_same_letter [OF nb, of a] Cons
    show ?thesis by (simp add: lower_py_def ci_eq_def)
  qed
qed

lemma lower_py_literals:
  "(lower_py s = ''nan'') = ci_eq s ''nan''"
  "(lower_py s = ''address not available'') = ci_eq s ''address not available''"
  "(lower_py s = ''phone not available'') = ci_eq s ''phone not available''"
  by (rule lower_py_ci_eq, simp add: is_upper_def)+

lemma spec_blank_Nil [simp]: "spec_blank []"
  by (simp add: spec_blank_def)

lemma required_complete_spec: "required_complete v = spec_required_present v"
  by (cases v) (auto simp: required_complete_def spec_required_present_def strip_py_blank
      lower_py_literals)

lemma lower_py_Nil_iff: "lower_py s = [] \<longleftrightarrow> s = []"
  by (simp add: lower_py_def)

lemma optional_complete_spec: "optional_complete v = spec_optional_present v"
  by (cases v) (auto simp: optional_complete_def spec_optional_present_def strip_py_blank
      lower_py_literals lower_py_Nil_iff)



lemma check_data_completeness_spec:
  "check_data_completeness f =
     0.8 * (count_present spec_required_present [name f, city f, state f] / 3) +
     0.2 * (count_present spec_optional_present [address f, phone f, zip_field f] / 3)"
  by (simp add: check_data_completeness_def required_fields_def optional_fields_def
      count_present_def required_complete_spec optional_complete_spec Let_def)

lemma count_present_le: "count_present P xs \<le> real (length xs)"
  by (simp add: count_present_def)

lemma count_present_ge: "0 \<le> count_present P xs"
  by (simp add: count_present_def)

lemma check_data_completeness_range:
  "0 \<le> check_data_completeness f \<and> check_data_completeness f \<le> 1"
proof -
  let ?r = "count_present spec_required_present [name f, city f, state f]"
  let ?o = "count_present spec_optional_present [address f, phone f, zip_field f]"
  have "0 \<le> ?r" "?r \<le> 3" "0 \<le> ?o" "?o \<le> 3"
    using count_present_le [of spec_required_present "[name f, city f, state f]"]
      count_present_le [of spec_optional_present "[address f, phone f, zip_field f]"]
    by (simp_all add: count_present_ge)
  then show ?thesis unfolding check_data_completeness_spec by simp
qed



lemma format_f_1_0: "format_f 1 0 = ''0.0''"
  by code_simp

lemma low_warning_missing_score:
  "score f = None \<Longrightarrow> low_score_warning 0 \<in> set (warnings (validation_of f))"
  by (simp add: validation_of_def Let_def check_score_anomalies_def get_score_def
      SCORE_THRESHOLDS_suspiciously_low_def SCORE_THRESHOLDS_suspiciously_high_def)

lemma low_tier_missing_score:
  "score f = None \<Longrightarrow> similarities f = [] \<Longrightarrow> confidence_level (validation_of f) = ''low''"
  by (simp add: validation_of_def Let_def check_score_confidence_def get_score_def)

lemma similarities_Nil_iff:
  "similarities f = [] \<longleftrightarrow>
     affordability_similarity f = None \<and> crisis_care_similarity f = None \<and>
     accessibility_similarity f = None \<and> specialization_similarity f = None \<and>
     community_integration_similarity f = None"
  by (auto simp: similarities_def List.map_filter_simps split: option.splits)


subsection \<open>The reliability score\<close>

text \<open>
  Claim C5: for every facility, confidence tier and completeness, \<open>calculate_reliability\<close>
  returns \<open>100 \<times> (confidence_weight \<times> 0.6 + completeness \<times> 0.3 + 0.1)\<close> clamped to
  [0, 100], with the weights high 1.0, medium 0.7, low 0.4, unknown 0.3; the result is
  strictly positive for every completeness in [0, 1], so the reliability score of a validated
  facility is never zero.
\<close>

theorem C5_reliability_formula:
  "(spec_confidence_weight t = Some w \<longrightarrow> calculate_reliability f t c = spec_reliability w c) \<and>
   0 \<le> calculate_reliability f t c \<and> calculate_reliability f t c \<le> 100 \<and>
   (0 \<le> c \<and> c \<le> 1 \<longrightarrow> 0 < calculate_reliability f t c) \<and>
   0 < reliability_score (validation_of f)"
proof -
  have "0 < reliability_score (validation_of f)"
    using check_data_completeness_range [of f]
    by (simp add: validation_of_def Let_def calculate_reliability_pos)
  then show ?thesis
    using calculate_reliability_range [of f t c]
    by (simp add: calculate_reliability_spec calculate_reliability_pos)
qed

theorem C5_reliability_formula_witness:
  "spec_confidence_weight ''medium'' = Some 0.7 \<and>
   calculate_reliability named_facility ''medium'' 0.8 = spec_reliability 0.7 0.8 \<and>
   spec_reliability 0.7 0.8 = 76 \<and>
   (0::real) \<le> 0.8 \<and> (0.8::real) \<le> 1 \<and>
   0 < calculate_reliability named_facility ''medium'' 0.8"
proof -
  have h: "spec_confidence_weight ''medium'' = Some 0.7"
    by (simp add: spec_confidence_weight_def)
  have v: "spec_reliability 0.7 0.8 = 76"
    by (simp add: spec_reliability_def Let_def)
  from C5_reliability_formula [of "''medium''" "0.7" named_facility "0.8"] h v
  show ?thesis by simp
qed

text \<open>
  Claim C6: the reliability score is monotonically non-decreasing in the completeness for a
  fixed tier, and in the tier, in the rank order unknown < low < medium < high, for a fixed
  completeness.
\<close>

theorem C6_reliability_monotone:
  "(c1 \<le> c2 \<longrightarrow> calculate_reliability f t c1 \<le> calculate_reliability f t c2) \<and>
   (tier_rank t1 = Some r1 \<and> tier_rank t2 = Some r2 \<and> r1 \<le> r2 \<longrightarrow>
      calculate_reliability f t1 c \<le> calculate_reliability f t2 c)"
  using calculate_reliability_mono_completeness [of c1 c2 f t]
    calculate_reliability_mono_tier [of t1 r1 t2 r2 f c]
  by blast

theorem C6_reliability_monotone_witness:
  "(0.2::real) \<le> 0.8 \<and>
   calculate_reliability named_facility ''low'' 0.2 \<le> calculate_reliability named_facility ''low'' 0.8 \<and>
   tier_rank ''low'' = Some 1 \<and> tier_rank ''high'' = Some 3 \<and> (1::nat) \<le> 3 \<and>
   calculate_reliability named_facility ''low'' 0.5 \<le> calculate_reliability named_facility ''high'' 0.5"
proof -
  have r: "tier_rank ''low'' = Some 1" "tier_rank ''high'' = Some 3"
    by (simp_all add: tier_rank_def)
  from C6_reliability_monotone [of "0.2" "0.8" named_facility "''low''" "''low''" 1 "''high''" 3 "0.5"] r
  show ?thesis by simp
qed

subsection \<open>Data completeness\<close>



subsection \<open>Missing and unusable values\<close>


lemma present_values_Nil: "present_values xs = [] \<Longrightarrow> PyNone \<notin> set xs"
  by (auto simp: present_values_def filter_empty_conv)









text \<open>
  Claim C10: for every facility with no \<open>score\<close> key the overall score counts as 0, so the
  validation holds the warning \<open>Abnormally low score (0.0/10), may not match criteria\<close>;
  and when no similarity field is present either, the fallback tiering gives
  \<open>confidence_level = low\<close>, never \<open>unknown\<close>.
\<close>

theorem C10_missing_score:
  assumes "score f = None"
  shows "low_score_warning 0 \<in> set (warnings (validation_of f)) \<and>
         low_score_warning 0 = ''Abnormally low score (0.0/10), may not match criteria'' \<and>
         validation (validate_facility f) = Some (validation_of f) \<and>
         (affordability_similarity f = None \<and> crisis_care_similarity f = None \<and>
          accessibility_similarity f = None \<and> specialization_similarity f = None \<and>
          community_integration_similarity f = None \<longrightarrow>
            confidence_level (validation_of f) = ''low'' \<and>
            confidence_level (validation_of f) \<noteq> ''unknown'')"
proof -
  have s: "low_score_warning 0 = ''Abnormally low score (0.0/10), may not match criteria''"
    unfolding low_score_warning_def format_f_1_0 by simp
  have v: "validation (validate_facility f) = Some (validation_of f)"
    by (simp add: validate_facility_def)
  have t: "affordability_similarity f = None \<and> crisis_care_similarity f = None \<and>
          accessibility_similarity f = None \<and> specialization_similarity f = None \<and>
          community_integration_similarity f = None \<longrightarrow>
            confidence_level (validation_of f) = ''low'' \<and>
            confidence_level (validation_of f) \<noteq> ''unknown''"
    using low_tier_missing_score [OF assms] similarities_Nil_iff [of f] by auto
  from low_warning_missing_score [OF assms] s v t show ?thesis by blast
qed

theorem C10_missing_score_witness:
  "score named_facility = None \<and>
   ''Abnormally low score (0.0/10), may not match criteria''
     \<in> set (warnings (validation_of named_facility)) \<and>
   confidence_level (validation_of named_facility) = ''low''"
proof -
  have h: "score named_facility = None"
    by (simp add: named_facility_def empty_facility_def)
  have n: "affordability_similarity named_facility = None \<and>
    crisis_care_similarity named_facility = None \<and>
    accessibility_similarity named_facility = None \<and>
    specialization_similarity named_facility = None \<and>
    community_integration_similarity named_facility = None"
    by (simp add: named_facility_def empty_facility_def)
  from C10_missing_score [OF h] n h show ?thesis by auto
qed

end
